theory Spec2Isabelle
  imports Main
begin

section \<open>The sticker screen of editty: \<open>src/app/(tabs)/index.tsx\<close>\<close>

text \<open>
  The screen is one React function component, \<open>Index\<close>. Its state is the four
  \<open>useState\<close> cells plus the status cell of the media-library permissions hook. Every
  handler is a closure over the setters; a setter overwrites its cell with the value it
  is given. The library calls (picker, view capture, media-library write, \<open>alert\<close>,
  \<open>console.log\<close>) are recorded, in program order, in a list of effects, and what an
  awaited promise settles to is an argument of the handler that awaits it.
\<close>

subsection \<open>Values\<close>

text \<open>
  The JavaScript values that the cells \<open>image\<close> and \<open>pickedEmoji\<close> hold:
  \<open>undefined\<close>, a string, or the handle that \<open>require(path)\<close> yields for a bundled
  asset. \<open>truthy\<close> is JavaScript's conversion to a boolean, as used by \<open>?:\<close>, \<open>&&\<close>
  and \<open>if\<close>: \<open>undefined\<close> and the empty string are falsy, an asset handle is not.
\<close>

datatype js_value = JsUndefined | Str string | Required string

fun truthy :: "js_value \<Rightarrow> bool" where
  "truthy JsUndefined = False"
| "truthy (Str s) = (s \<noteq> [])"
| "truthy (Required p) = True"

text \<open>Line 26: \<open>const ImageProvider = require('@/assets/images/background-image.png')\<close>.\<close>

definition ImageProvider :: js_value where
  "ImageProvider = Required ''@/assets/images/background-image.png''"

text \<open>
  What a rejected promise or a failed property access throws. \<open>TypeError\<close> is the
  error of reading a property of \<open>undefined\<close> or \<open>null\<close>; \<open>NativeError\<close> stands for
  whatever a library call rejects with.
\<close>

datatype error = TypeError | NativeError string

datatype 'a settled = Resolved 'a | Rejected error

text \<open>
  The response object of the permissions hook of the media library. The screen only
  compares the hook's status cell with \<open>null\<close>; \<open>null\<close> is \<open>None\<close>.
\<close>

datatype PermissionStatus = GRANTED | UNDETERMINED | DENIED

record PermissionResponse =
  status :: PermissionStatus
  granted :: bool
  canAskAgain :: bool

text \<open>
  The result of \<open>launchImageLibraryAsync\<close>: the fields the handler reads.
  \<open>assets\<close> is \<open>null\<close> (\<open>None\<close>) or an array of assets.
\<close>

record ImagePickerAsset =
  uri :: string

record ImagePickerResult =
  canceled :: bool
  assets :: "ImagePickerAsset list option"

record picker_options =
  allowsEditing :: bool
  mediaTypes :: "string list"
  quality :: nat

record capture_options =
  height :: nat
  capture_quality :: nat

subsection \<open>Effects\<close>

datatype logged = LoggedError error | LoggedResult ImagePickerResult

datatype effect =
    RequestPermission
  | LaunchImageLibraryAsync picker_options
  | CaptureRef capture_options
  | SaveToLibraryAsync string
  | Alert string
  | ConsoleLog logged

text \<open>The messages of the alerts in a trace, and the arguments of its media-library writes.\<close>

fun alerts :: "effect list \<Rightarrow> string list" where
  "alerts [] = []"
| "alerts (Alert m # es) = m # alerts es"
| "alerts (_ # es) = alerts es"

fun saves :: "effect list \<Rightarrow> string list" where
  "saves [] = []"
| "saves (SaveToLibraryAsync u # es) = u # saves es"
| "saves (_ # es) = saves es"

subsection \<open>State\<close>

text \<open>
  Lines 18 and 27 to 30. The cell \<open>image\<close> is named \<open>image_st\<close> here, since \<open>image\<close>
  is the image of a set in HOL.
\<close>

record screen =
  permissionStatus :: "PermissionResponse option"
  image_st :: js_value
  showAppOptions :: bool
  showEmojiPickerModal :: bool
  pickedEmoji :: js_value

definition initial :: screen where
  "initial = \<lparr> permissionStatus = None, image_st = JsUndefined, showAppOptions = False,
               showEmojiPickerModal = False, pickedEmoji = JsUndefined \<rparr>"

definition setImage :: "js_value \<Rightarrow> screen \<Rightarrow> screen" where
  "setImage v s = s\<lparr> image_st := v \<rparr>"

definition setShowAppOptions :: "bool \<Rightarrow> screen \<Rightarrow> screen" where
  "setShowAppOptions b s = s\<lparr> showAppOptions := b \<rparr>"

definition setShowEmojiPickerModal :: "bool \<Rightarrow> screen \<Rightarrow> screen" where
  "setShowEmojiPickerModal b s = s\<lparr> showEmojiPickerModal := b \<rparr>"

definition setPickedEmoji :: "js_value \<Rightarrow> screen \<Rightarrow> screen" where
  "setPickedEmoji v s = s\<lparr> pickedEmoji := v \<rparr>"

text \<open>
  What one run of a handler leaves behind: the error its promise rejects with, if any,
  the state, and the effects in the order they happened.
\<close>

record handler_result =
  thrown :: "error option"
  after :: screen
  effects :: "effect list"

definition returned :: "screen \<Rightarrow> handler_result" where
  "returned s = \<lparr> thrown = None, after = s, effects = [] \<rparr>"

subsection \<open>Handlers\<close>

text \<open>
  Lines 32 to 46. \<open>launched\<close> is what the picker's promise settles to. The rejection of
  the picker is not caught, and neither is the \<open>TypeError\<close> of \<open>result.assets[0].uri\<close>
  when there is no first asset; both happen before any setter is called.
\<close>

definition pickImageAsync :: "screen \<Rightarrow> ImagePickerResult settled \<Rightarrow> handler_result" where
  "pickImageAsync s launched =
    (let launch = LaunchImageLibraryAsync
                    \<lparr> allowsEditing = True, mediaTypes = [''images''], quality = 1 \<rparr> in
     case launched of
       Rejected e \<Rightarrow> \<lparr> thrown = Some e, after = s, effects = [launch] \<rparr>
     | Resolved result \<Rightarrow>
         if \<not> canceled result then
           (case assets result of
              None \<Rightarrow> \<lparr> thrown = Some TypeError, after = s, effects = [launch] \<rparr>
            | Some [] \<Rightarrow> \<lparr> thrown = Some TypeError, after = s, effects = [launch] \<rparr>
            | Some (a # _) \<Rightarrow>
                \<lparr> thrown = None,
                  after = setShowAppOptions True (setImage (Str (uri a)) s),
                  effects = [launch] \<rparr>)
         else
           \<lparr> thrown = None, after = s,
             effects = [launch, Alert ''You did not select an Image'',
                        ConsoleLog (LoggedResult result)] \<rparr>)"

text \<open>Lines 48 to 52.\<close>

definition onReset :: "screen \<Rightarrow> screen" where
  "onReset s = setPickedEmoji JsUndefined (setImage ImageProvider (setShowAppOptions False s))"

text \<open>Lines 54 to 60.\<close>

definition onAddSticker :: "screen \<Rightarrow> screen" where
  "onAddSticker s = setShowEmojiPickerModal True s"

definition onEmojiModalClose :: "screen \<Rightarrow> screen" where
  "onEmojiModalClose s = setShowEmojiPickerModal False s"

text \<open>
  Lines 62 to 80. \<open>captured\<close> is what the promise of \<open>captureRef\<close> settles to, and
  \<open>saved\<close> what the promise of \<open>saveToLibraryAsync\<close> settles to when that call is made.
  Both awaits are inside the \<open>try\<close>; the \<open>catch\<close> logs the error and nothing more.
\<close>

definition onSaveImageAsync :: "screen \<Rightarrow> string settled \<Rightarrow> unit settled \<Rightarrow> handler_result" where
  "onSaveImageAsync s captured saved =
    (let capture = CaptureRef \<lparr> height = 700, capture_quality = 1 \<rparr> in
     case captured of
       Rejected error \<Rightarrow>
         \<lparr> thrown = None, after = s, effects = [capture, ConsoleLog (LoggedError error)] \<rparr>
     | Resolved localUri \<Rightarrow>
         (case saved of
            Rejected error \<Rightarrow>
              \<lparr> thrown = None, after = s,
                effects = [capture, SaveToLibraryAsync localUri, ConsoleLog (LoggedError error)] \<rparr>
          | Resolved _ \<Rightarrow>
              if truthy (Str localUri) then
                \<lparr> thrown = None, after = s,
                  effects = [capture, SaveToLibraryAsync localUri, Alert ''Saved Succesfully!!!''] \<rparr>
              else
                \<lparr> thrown = None, after = s,
                  effects = [capture, SaveToLibraryAsync localUri, Alert ''Save Failed!! ):''] \<rparr>))"

subsection \<open>Rendering\<close>

text \<open>
  Lines 18 to 22 and 84 to 110. A render yields the effects of the function body (the
  call of \<open>requestPermission\<close>, whose promise is dropped) and the element tree, of which
  the model keeps: the \<open>path\<close> given to \<open>ImageViewer\<close>, the source of the
  \<open>EmojiSticker\<close> when one is rendered, the buttons on screen, and whether the emoji
  picker is visible.
\<close>

datatype button =
  ResetButton | AddStickerButton | SaveButton | ChoosePhotoButton | UseThisPhotoButton

record view =
  path :: js_value
  sticker :: "js_value option"
  buttons :: "button list"
  emojiPickerVisible :: bool

definition Index :: "screen \<Rightarrow> effect list \<times> view" where
  "Index s =
    ((case permissionStatus s of None \<Rightarrow> [RequestPermission] | Some _ \<Rightarrow> []),
     \<lparr> path = (if truthy (image_st s) then image_st s else ImageProvider),
       sticker = (if truthy (pickedEmoji s) then Some (pickedEmoji s) else None),
       buttons = (if showAppOptions s then [ResetButton, AddStickerButton, SaveButton]
                  else [ChoosePhotoButton, UseThisPhotoButton]),
       emojiPickerVisible = showEmojiPickerModal s \<rparr>)"

subsection \<open>Events\<close>

text \<open>
  What can happen to a mounted screen. A press carries what the promises awaited by its
  handler settle to. \<open>SelectEmoji\<close> and \<open>CloseEmojiPicker\<close> are the callbacks handed to
  the emoji picker and the emoji list (\<open>onSelect={setPickedEmoji}\<close>,
  \<open>onClose\<close> and \<open>onCloseModal={onEmojiModalClose}\<close>); \<open>PermissionsHook\<close> is the
  permissions hook storing a new status.
\<close>

datatype event =
    PressChoosePhoto "ImagePickerResult settled"
  | PressUseThisPhoto
  | PressReset
  | PressAddSticker
  | PressSave "string settled" "unit settled"
  | SelectEmoji js_value
  | CloseEmojiPicker
  | PermissionsHook "PermissionResponse option"

fun pressed :: "event \<Rightarrow> button option" where
  "pressed (PressChoosePhoto _) = Some ChoosePhotoButton"
| "pressed PressUseThisPhoto = Some UseThisPhotoButton"
| "pressed PressReset = Some ResetButton"
| "pressed PressAddSticker = Some AddStickerButton"
| "pressed (PressSave _ _) = Some SaveButton"
| "pressed (SelectEmoji _) = None"
| "pressed CloseEmojiPicker = None"
| "pressed (PermissionsHook _) = None"

text \<open>
  A button can be pressed when the render shows it. The callbacks of the child components
  and of the hook are not restricted: their code is not part of the screen.
\<close>

definition enabled :: "event \<Rightarrow> screen \<Rightarrow> bool" where
  "enabled e s = (case pressed e of None \<Rightarrow> True | Some b \<Rightarrow> b \<in> set (buttons (snd (Index s))))"

text \<open>The \<open>onPress\<close> wiring of lines 94 to 106.\<close>

fun fire :: "event \<Rightarrow> screen \<Rightarrow> handler_result" where
  "fire (PressChoosePhoto launched) s = pickImageAsync s launched"
| "fire PressUseThisPhoto s = returned (setShowAppOptions True s)"
| "fire PressReset s = returned (onReset s)"
| "fire PressAddSticker s = returned (onAddSticker s)"
| "fire (PressSave captured saved) s = onSaveImageAsync s captured saved"
| "fire (SelectEmoji item) s = returned (setPickedEmoji item s)"
| "fire CloseEmojiPicker s = returned (onEmojiModalClose s)"
| "fire (PermissionsHook p) s = returned (s\<lparr> permissionStatus := p \<rparr>)"

text \<open>The states a mounted screen can be in.\<close>

inductive reachable :: "screen \<Rightarrow> bool" where
  mount: "reachable initial"
| event: "reachable s \<Longrightarrow> enabled e s \<Longrightarrow> reachable (after (fire e s))"

text \<open>
  The life of a mounted screen. React calls \<open>Index\<close> when the screen mounts and again
  after an event has run its handler. \<open>play\<close> runs a list of events from a state and the
  effects so far: an event that cannot happen in the state it meets is skipped; one that
  can adds the effects of its handler and then those of the render that follows.
  \<open>lifetime\<close> starts from the initial state and the effects of the render at mount.
\<close>

fun play :: "event list \<Rightarrow> screen \<times> effect list \<Rightarrow> screen \<times> effect list" where
  "play [] st = st"
| "play (e # es) (s, tr) =
     (if enabled e s
      then play es (after (fire e s), tr @ effects (fire e s) @ fst (Index (after (fire e s))))
      else play es (s, tr))"

definition lifetime :: "event list \<Rightarrow> screen \<times> effect list" where
  "lifetime es = play es (initial, fst (Index initial))"

section \<open>Export\<close>

lemma onSaveImageAsync_capture_rejected:
  "onSaveImageAsync s (Rejected e) saved =
     \<lparr> thrown = None, after = s,
       effects = [CaptureRef \<lparr> height = 700, capture_quality = 1 \<rparr>, ConsoleLog (LoggedError e)] \<rparr>"
  by (simp add: onSaveImageAsync_def)

text \<open>
  Claim C3. When the capture call of an export raises, the export makes no media-library
  write call: the trace of the handler holds no \<open>SaveToLibraryAsync\<close>.
\<close>

theorem C3_capture_raises_no_write:
  "saves (effects (onSaveImageAsync s (Rejected e) saved)) = []"
  by (simp add: onSaveImageAsync_capture_rejected)

text \<open>An instance: the capture rejects although the write would have gone through.\<close>

theorem C3_capture_raises_no_write_witness:
  "saves (effects (onSaveImageAsync initial (Rejected (NativeError ''capture failed'')) (Resolved ()))) = []"
  using C3_capture_raises_no_write [of initial "NativeError ''capture failed''" "Resolved ()"]
  by simp

lemma onSaveImageAsync_capture_resolved:
  "onSaveImageAsync s (Resolved u) saved =
     (case saved of
        Rejected e \<Rightarrow>
          \<lparr> thrown = None, after = s,
            effects = [CaptureRef \<lparr> height = 700, capture_quality = 1 \<rparr>,
                       SaveToLibraryAsync u, ConsoleLog (LoggedError e)] \<rparr>
      | Resolved _ \<Rightarrow>
          \<lparr> thrown = None, after = s,
            effects = [CaptureRef \<lparr> height = 700, capture_quality = 1 \<rparr>,
                       SaveToLibraryAsync u,
                       Alert (if u \<noteq> [] then ''Saved Succesfully!!!'' else ''Save Failed!! ):'')] \<rparr>)"
  by (simp add: onSaveImageAsync_def split: settled.splits)

lemma onSaveImageAsync_after: "after (onSaveImageAsync s captured saved) = s"
  by (cases captured; cases saved)
     (simp_all add: onSaveImageAsync_capture_rejected onSaveImageAsync_capture_resolved)

lemma onSaveImageAsync_thrown: "thrown (onSaveImageAsync s captured saved) = None"
  by (cases captured; cases saved)
     (simp_all add: onSaveImageAsync_capture_rejected onSaveImageAsync_capture_resolved)

text \<open>
  Claim C1, as stated, at a capture that throws: the handler shows no alert at all, so no
  failure alert either. The \<open>catch\<close> block only logs.
\<close>

theorem C1_capture_throws_counterexample:
  "alerts (effects (onSaveImageAsync initial (Rejected (NativeError ''capture failed'')) (Resolved ()))) = []"
  by (simp add: onSaveImageAsync_capture_rejected)

text \<open>
  Claim C1, amended. When the capture call throws, the error is logged to the console and
  no alert is shown. When the capture returns a falsy URI and the media-library write that
  follows returns, the failure alert is shown.
\<close>

theorem C1_failure_reporting:
  "alerts (effects (onSaveImageAsync s (Rejected e) saved)) = []
   \<and> ConsoleLog (LoggedError e) \<in> set (effects (onSaveImageAsync s (Rejected e) saved))
   \<and> (\<not> truthy (Str u) \<longrightarrow>
        alerts (effects (onSaveImageAsync s (Resolved u) (Resolved ()))) = [''Save Failed!! ):''])"
  by (simp add: onSaveImageAsync_capture_rejected onSaveImageAsync_capture_resolved)

theorem C1_failure_reporting_witness:
  "alerts (effects (onSaveImageAsync initial (Rejected TypeError) (Resolved ()))) = []
   \<and> ConsoleLog (LoggedError TypeError)
        \<in> set (effects (onSaveImageAsync initial (Rejected TypeError) (Resolved ())))
   \<and> \<not> truthy (Str [])
   \<and> alerts (effects (onSaveImageAsync initial (Resolved []) (Resolved ()))) = [''Save Failed!! ):'']"
  using C1_failure_reporting [of initial TypeError "Resolved ()" "[]"]
  by simp

text \<open>
  Claim C2, as stated, at a capture that succeeds and a media-library write that rejects:
  the write call is made with the captured URI, the rejection is caught and logged, and no
  success alert is shown.
\<close>

theorem C2_write_rejects_counterexample:
  "truthy (Str ''file:///cache/capture.png'')
   \<and> alerts (effects (onSaveImageAsync initial (Resolved ''file:///cache/capture.png'')
                        (Rejected (NativeError ''permission denied'')))) = []"
  by (simp add: onSaveImageAsync_capture_resolved)

text \<open>
  Claim C2, amended. When the capture returns a truthy URI, exactly one media-library
  write call is made and its argument is that URI, whatever the write settles to, and the
  handler does not throw. When the write call returns, the whole trace is the capture,
  the write, and then the success alert. When the write call throws, the whole trace is
  the capture, the write, and then the console log of the error: the error is caught and
  logged, and no alert is shown.
\<close>

theorem C2_one_write_then_success_alert:
  "truthy (Str u) \<Longrightarrow>
     saves (effects (onSaveImageAsync s (Resolved u) saved)) = [u]
     \<and> thrown (onSaveImageAsync s (Resolved u) saved) = None
     \<and> effects (onSaveImageAsync s (Resolved u) (Resolved ())) =
         [CaptureRef \<lparr> height = 700, capture_quality = 1 \<rparr>, SaveToLibraryAsync u,
          Alert ''Saved Succesfully!!!'']
     \<and> effects (onSaveImageAsync s (Resolved u) (Rejected e)) =
         [CaptureRef \<lparr> height = 700, capture_quality = 1 \<rparr>, SaveToLibraryAsync u,
          ConsoleLog (LoggedError e)]
     \<and> alerts (effects (onSaveImageAsync s (Resolved u) (Rejected e))) = []"
proof -
  assume "truthy (Str u)"
  then have nonempty: "u \<noteq> []"
    by simp
  have "saves (effects (onSaveImageAsync s (Resolved u) saved)) = [u]"
    by (cases saved) (simp_all add: onSaveImageAsync_capture_resolved)
  moreover have "thrown (onSaveImageAsync s (Resolved u) saved) = None"
    by (rule onSaveImageAsync_thrown)
  moreover have "effects (onSaveImageAsync s (Resolved u) (Resolved ())) =
         [CaptureRef \<lparr> height = 700, capture_quality = 1 \<rparr>, SaveToLibraryAsync u,
          Alert ''Saved Succesfully!!!'']"
    using nonempty by (simp add: onSaveImageAsync_capture_resolved)
  moreover have "effects (onSaveImageAsync s (Resolved u) (Rejected e)) =
         [CaptureRef \<lparr> height = 700, capture_quality = 1 \<rparr>, SaveToLibraryAsync u,
          ConsoleLog (LoggedError e)]"
    by (simp add: onSaveImageAsync_capture_resolved)
  ultimately show ?thesis
    by simp
qed

text \<open>An instance: a captured file, and a write that is refused for lack of permission.\<close>

theorem C2_one_write_then_success_alert_witness:
  "truthy (Str ''file:///cache/capture.png'')
   \<and> saves (effects (onSaveImageAsync initial (Resolved ''file:///cache/capture.png'')
                       (Rejected (NativeError ''permission denied''))))
       = [''file:///cache/capture.png'']
   \<and> effects (onSaveImageAsync initial (Resolved ''file:///cache/capture.png'') (Resolved ())) =
         [CaptureRef \<lparr> height = 700, capture_quality = 1 \<rparr>,
          SaveToLibraryAsync ''file:///cache/capture.png'', Alert ''Saved Succesfully!!!'']
   \<and> effects (onSaveImageAsync initial (Resolved ''file:///cache/capture.png'')
                (Rejected (NativeError ''permission denied''))) =
         [CaptureRef \<lparr> height = 700, capture_quality = 1 \<rparr>,
          SaveToLibraryAsync ''file:///cache/capture.png'',
          ConsoleLog (LoggedError (NativeError ''permission denied''))]"
  using C2_one_write_then_success_alert
          [of "''file:///cache/capture.png''" initial "Rejected (NativeError ''permission denied'')"
              "NativeError ''permission denied''"]
  by simp

text \<open>
  Claim C8. When the capture call of an export throws, the handler leaves every cell of the
  screen state as it was, and the error does not leave the handler: its promise resolves.
\<close>

theorem C8_capture_throws_state_untouched:
  "after (onSaveImageAsync s (Rejected e) saved) = s
   \<and> thrown (onSaveImageAsync s (Rejected e) saved) = None"
  by (simp add: onSaveImageAsync_capture_rejected)

theorem C8_capture_throws_state_untouched_witness:
  "after (onSaveImageAsync (setImage (Str ''file:///photos/cat.jpg'') initial)
            (Rejected (NativeError ''capture failed'')) (Resolved ()))
     = setImage (Str ''file:///photos/cat.jpg'') initial
   \<and> thrown (onSaveImageAsync (setImage (Str ''file:///photos/cat.jpg'') initial)
            (Rejected (NativeError ''capture failed'')) (Resolved ())) = None"
  using C8_capture_throws_state_untouched
          [of "setImage (Str ''file:///photos/cat.jpg'') initial"
              "NativeError ''capture failed''" "Resolved ()"]
  by simp

section \<open>Picking a photo\<close>

lemma pickImageAsync_canceled:
  "canceled r \<Longrightarrow>
     pickImageAsync s (Resolved r) =
       \<lparr> thrown = None, after = s,
         effects = [LaunchImageLibraryAsync
                      \<lparr> allowsEditing = True, mediaTypes = [''images''], quality = 1 \<rparr>,
                    Alert ''You did not select an Image'', ConsoleLog (LoggedResult r)] \<rparr>"
  by (simp add: pickImageAsync_def)

lemma pickImageAsync_picked:
  "\<not> canceled r \<Longrightarrow> assets r = Some (a # rest) \<Longrightarrow>
     pickImageAsync s (Resolved r) =
       \<lparr> thrown = None, after = s\<lparr> image_st := Str (uri a), showAppOptions := True \<rparr>,
         effects = [LaunchImageLibraryAsync
                      \<lparr> allowsEditing = True, mediaTypes = [''images''], quality = 1 \<rparr>] \<rparr>"
  by (simp add: pickImageAsync_def setImage_def setShowAppOptions_def)

text \<open>
  Claim C5. When the picker returns a cancelled result, the cells \<open>image\<close> and
  \<open>showAppOptions\<close> hold what they held before (the whole state does), and the handler
  shows the alert and then logs the result to the console.
\<close>

theorem C5_cancelled_pick_changes_nothing:
  "canceled r \<Longrightarrow>
     image_st (after (pickImageAsync s (Resolved r))) = image_st s
     \<and> showAppOptions (after (pickImageAsync s (Resolved r))) = showAppOptions s
     \<and> after (pickImageAsync s (Resolved r)) = s
     \<and> alerts (effects (pickImageAsync s (Resolved r))) = [''You did not select an Image'']
     \<and> ConsoleLog (LoggedResult r) \<in> set (effects (pickImageAsync s (Resolved r)))"
  by (simp add: pickImageAsync_canceled)

theorem C5_cancelled_pick_changes_nothing_witness:
  "canceled \<lparr> canceled = True, assets = None \<rparr>
   \<and> image_st (after (pickImageAsync initial (Resolved \<lparr> canceled = True, assets = None \<rparr>)))
       = image_st initial
   \<and> showAppOptions (after (pickImageAsync initial (Resolved \<lparr> canceled = True, assets = None \<rparr>)))
       = showAppOptions initial
   \<and> after (pickImageAsync initial (Resolved \<lparr> canceled = True, assets = None \<rparr>)) = initial
   \<and> alerts (effects (pickImageAsync initial (Resolved \<lparr> canceled = True, assets = None \<rparr>)))
       = [''You did not select an Image'']
   \<and> ConsoleLog (LoggedResult \<lparr> canceled = True, assets = None \<rparr>)
       \<in> set (effects (pickImageAsync initial (Resolved \<lparr> canceled = True, assets = None \<rparr>)))"
  using C5_cancelled_pick_changes_nothing [of "\<lparr> canceled = True, assets = None \<rparr>" initial]
  by simp

lemma pickImageAsync_no_asset:
  "\<not> canceled r \<Longrightarrow> assets r = None \<or> assets r = Some [] \<Longrightarrow>
     pickImageAsync s (Resolved r) =
       \<lparr> thrown = Some TypeError, after = s,
         effects = [LaunchImageLibraryAsync
                      \<lparr> allowsEditing = True, mediaTypes = [''images''], quality = 1 \<rparr>] \<rparr>"
  by (auto simp: pickImageAsync_def)

text \<open>
  Claim C6, as stated, at a result that is not cancelled and holds no asset:
  \<open>result.assets[0].uri\<close> throws before any setter is called, so the cell \<open>image\<close> is
  still \<open>undefined\<close> and \<open>showAppOptions\<close> is still false.
\<close>

theorem C6_no_asset_counterexample:
  "\<not> canceled \<lparr> canceled = False, assets = Some [] \<rparr>
   \<and> thrown (pickImageAsync initial (Resolved \<lparr> canceled = False, assets = Some [] \<rparr>))
       = Some TypeError
   \<and> image_st (after (pickImageAsync initial (Resolved \<lparr> canceled = False, assets = Some [] \<rparr>)))
       = JsUndefined
   \<and> showAppOptions (after (pickImageAsync initial (Resolved \<lparr> canceled = False, assets = Some [] \<rparr>)))
       = False"
  by (simp add: pickImageAsync_no_asset initial_def)

text \<open>
  Claim C6, amended. When the picker returns a result that is not cancelled and that holds
  at least one asset, with \<open>a\<close> the first one, \<open>result.assets[0]\<close>, the handler does not
  throw, the cell \<open>image\<close> becomes the URI of \<open>a\<close> and \<open>showAppOptions\<close> becomes true, so
  that the next render shows the editing controls.
\<close>

theorem C6_pick_sets_background_and_editing:
  "\<not> canceled r \<Longrightarrow> assets r = Some (a # rest) \<Longrightarrow>
     image_st (after (pickImageAsync s (Resolved r))) = Str (uri a)
     \<and> showAppOptions (after (pickImageAsync s (Resolved r))) = True
     \<and> thrown (pickImageAsync s (Resolved r)) = None
     \<and> buttons (snd (Index (after (pickImageAsync s (Resolved r)))))
         = [ResetButton, AddStickerButton, SaveButton]"
  by (simp add: pickImageAsync_picked Index_def)

theorem C6_pick_sets_background_and_editing_witness:
  "\<not> canceled \<lparr> canceled = False, assets = Some [\<lparr> uri = ''file:///photos/cat.jpg'' \<rparr>] \<rparr>
   \<and> assets \<lparr> canceled = False, assets = Some [\<lparr> uri = ''file:///photos/cat.jpg'' \<rparr>] \<rparr>
       = Some (\<lparr> uri = ''file:///photos/cat.jpg'' \<rparr> # [])
   \<and> image_st (after (pickImageAsync initial
        (Resolved \<lparr> canceled = False, assets = Some [\<lparr> uri = ''file:///photos/cat.jpg'' \<rparr>] \<rparr>)))
       = Str ''file:///photos/cat.jpg''
   \<and> showAppOptions (after (pickImageAsync initial
        (Resolved \<lparr> canceled = False, assets = Some [\<lparr> uri = ''file:///photos/cat.jpg'' \<rparr>] \<rparr>)))
       = True"
  using C6_pick_sets_background_and_editing
          [of "\<lparr> canceled = False, assets = Some [\<lparr> uri = ''file:///photos/cat.jpg'' \<rparr>] \<rparr>"
              "\<lparr> uri = ''file:///photos/cat.jpg'' \<rparr>" "[]" initial]
  by simp

section \<open>Reset and the button "Use this photo"\<close>

lemmas setters = setImage_def setShowAppOptions_def setShowEmojiPickerModal_def setPickedEmoji_def

lemma onReset_cells:
  "onReset s = s\<lparr> image_st := ImageProvider, showAppOptions := False, pickedEmoji := JsUndefined \<rparr>"
  by (simp add: onReset_def setters)

lemma path_of_default: "image_st s = ImageProvider \<Longrightarrow> path (snd (Index s)) = ImageProvider"
  by (simp add: Index_def)

text \<open>
  Claim C7. From any state, \<open>onReset\<close> leads to a state whose render gives the bundled
  default background to the image viewer, in which \<open>pickedEmoji\<close> is \<open>undefined\<close> (no
  sticker is rendered), and in which \<open>showAppOptions\<close> is false (the render shows the two
  initial buttons).
\<close>

theorem C7_reset_restores_initial_canvas:
  "path (snd (Index (onReset s))) = ImageProvider
   \<and> pickedEmoji (onReset s) = JsUndefined
   \<and> sticker (snd (Index (onReset s))) = None
   \<and> showAppOptions (onReset s) = False
   \<and> buttons (snd (Index (onReset s))) = [ChoosePhotoButton, UseThisPhotoButton]"
proof -
  have "path (snd (Index (onReset s))) = ImageProvider"
    by (rule path_of_default) (simp add: onReset_cells)
  moreover have "pickedEmoji (onReset s) = JsUndefined" "showAppOptions (onReset s) = False"
    by (simp_all add: onReset_cells)
  ultimately show ?thesis
    by (simp add: Index_def)
qed

text \<open>An instance: reset after a photo was picked and a sticker chosen.\<close>

theorem C7_reset_restores_initial_canvas_witness:
  "path (snd (Index (onReset \<lparr> permissionStatus = None, image_st = Str ''file:///photos/cat.jpg'',
         showAppOptions = True, showEmojiPickerModal = False,
         pickedEmoji = Required ''emoji1.png'' \<rparr>))) = ImageProvider
   \<and> pickedEmoji (onReset \<lparr> permissionStatus = None, image_st = Str ''file:///photos/cat.jpg'',
         showAppOptions = True, showEmojiPickerModal = False,
         pickedEmoji = Required ''emoji1.png'' \<rparr>) = JsUndefined
   \<and> showAppOptions (onReset \<lparr> permissionStatus = None, image_st = Str ''file:///photos/cat.jpg'',
         showAppOptions = True, showEmojiPickerModal = False,
         pickedEmoji = Required ''emoji1.png'' \<rparr>) = False"
  using C7_reset_restores_initial_canvas
          [of "\<lparr> permissionStatus = None, image_st = Str ''file:///photos/cat.jpg'',
                 showAppOptions = True, showEmojiPickerModal = False,
                 pickedEmoji = Required ''emoji1.png'' \<rparr>"]
  by simp

lemma use_this_photo_enabled_initially: "enabled PressUseThisPhoto initial"
  by (simp add: enabled_def Index_def initial_def)

text \<open>
  Claim C9. Pressing "Use this photo" sets \<open>showAppOptions\<close> to true and leaves the cells
  \<open>image\<close> and \<open>pickedEmoji\<close> as they were. The button is on screen in the initial state,
  and pressing it there leads, with no photo picked, to a state whose render shows the
  editing controls over the bundled default background.
\<close>

theorem C9_use_this_photo_enters_editing:
  "showAppOptions (after (fire PressUseThisPhoto s)) = True
   \<and> image_st (after (fire PressUseThisPhoto s)) = image_st s
   \<and> pickedEmoji (after (fire PressUseThisPhoto s)) = pickedEmoji s
   \<and> enabled PressUseThisPhoto initial
   \<and> reachable (after (fire PressUseThisPhoto initial))
   \<and> path (snd (Index (after (fire PressUseThisPhoto initial)))) = ImageProvider
   \<and> buttons (snd (Index (after (fire PressUseThisPhoto initial))))
       = [ResetButton, AddStickerButton, SaveButton]"
proof -
  have "reachable (after (fire PressUseThisPhoto initial))"
    by (rule reachable.event [OF reachable.mount use_this_photo_enabled_initially])
  moreover have "path (snd (Index (after (fire PressUseThisPhoto initial)))) = ImageProvider"
    by (simp add: returned_def setters Index_def initial_def)
  moreover have "buttons (snd (Index (after (fire PressUseThisPhoto initial))))
       = [ResetButton, AddStickerButton, SaveButton]"
    by (simp add: returned_def setters Index_def)
  ultimately show ?thesis
    by (simp add: returned_def setters use_this_photo_enabled_initially)
qed

text \<open>An instance: the button pressed in the initial state.\<close>

theorem C9_use_this_photo_enters_editing_witness:
  "showAppOptions (after (fire PressUseThisPhoto initial)) = True
   \<and> image_st (after (fire PressUseThisPhoto initial)) = JsUndefined
   \<and> pickedEmoji (after (fire PressUseThisPhoto initial)) = JsUndefined
   \<and> path (snd (Index (after (fire PressUseThisPhoto initial)))) = ImageProvider"
  using C9_use_this_photo_enters_editing [of initial]
  by (simp add: initial_def returned_def setShowAppOptions_def)

section \<open>The permission request\<close>

lemma Index_view_ignores_permission:
  "snd (Index (s\<lparr> permissionStatus := p \<rparr>)) = snd (Index s)"
  by (simp add: Index_def)

lemma enabled_ignores_permission:
  "enabled e (s\<lparr> permissionStatus := p \<rparr>) = enabled e s"
  by (simp add: enabled_def Index_view_ignores_permission split: option.splits)

lemma fire_ignores_permission:
  "thrown (fire e (s\<lparr> permissionStatus := p \<rparr>)) = thrown (fire e s)"
  "effects (fire e (s\<lparr> permissionStatus := p \<rparr>)) = effects (fire e s)"
  "(after (fire e (s\<lparr> permissionStatus := p \<rparr>)))\<lparr> permissionStatus := q \<rparr>
     = (after (fire e s))\<lparr> permissionStatus := q \<rparr>"
  by (cases e;
      simp add: returned_def setters onReset_def onAddSticker_def onEmojiModalClose_def
                pickImageAsync_def onSaveImageAsync_def Let_def
           split: settled.splits option.splits list.splits)+

lemma play_extends_trace: "\<exists>more. snd (play es (s, tr)) = tr @ more"
proof (induction es arbitrary: s tr)
  case Nil
  show ?case by simp
next
  case (Cons e es)
  show ?case
  proof (cases "enabled e s")
    case True
    from Cons.IH [of "after (fire e s)" "tr @ effects (fire e s) @ fst (Index (after (fire e s)))"]
    obtain more where
      "snd (play es (after (fire e s), tr @ effects (fire e s) @ fst (Index (after (fire e s)))))
         = (tr @ effects (fire e s) @ fst (Index (after (fire e s)))) @ more"
      by blast
    with True show ?thesis by simp
  next
    case False
    with Cons.IH [of s tr] show ?thesis by simp
  qed
qed

lemma lifetime_requests: "RequestPermission \<in> set (snd (lifetime es))"
proof -
  have mount: "fst (Index initial) = [RequestPermission]"
    by (simp add: Index_def initial_def)
  from play_extends_trace [of es initial "fst (Index initial)"]
  obtain more where "snd (lifetime es) = fst (Index initial) @ more"
    by (auto simp: lifetime_def)
  with mount show ?thesis by simp
qed

lemma play_append: "play (es @ es') st = play es' (play es st)"
proof (induction es arbitrary: st)
  case Nil
  show ?case by simp
next
  case (Cons e es)
  obtain s tr where st: "st = (s, tr)"
    by (cases st)
  show ?case
    unfolding st by (simp add: Cons.IH)
qed

lemma reachable_lifetime: "reachable s \<Longrightarrow> \<exists>es. fst (lifetime es) = s"
proof (induction rule: reachable.induct)
  case mount
  have "fst (lifetime []) = initial"
    by (simp add: lifetime_def)
  then show ?case by blast
next
  case (event s e)
  then obtain es where es: "fst (lifetime es) = s"
    by blast
  obtain tr where "play es (initial, fst (Index initial)) = (s, tr)"
    using es by (cases "play es (initial, fst (Index initial))") (simp add: lifetime_def)
  with \<open>enabled e s\<close> have "fst (lifetime (es @ [e])) = after (fire e s)"
    by (simp add: lifetime_def play_append)
  then show ?case by blast
qed

text \<open>
  Claim C4. Granted or not, and so whenever it is not yet granted, the screen requests the
  photo-library permission: the render at mount calls \<open>requestPermission\<close>, the status of
  the hook being \<open>null\<close> then, so that the effects of every life of the screen hold the
  request, and every state the screen can be in ends such a life. Every render at which the
  status is still \<open>null\<close> makes the request; a render at a reported status does not ask
  again. The request is fire-and-forget: the render does not wait for it, and what is
  rendered, which events can happen, and what the handler of an event (a button or a
  callback of the emoji picker) throws, does and stores in the cells are the same
  whatever the permission status, so that a denial blocks no operation.
\<close>

theorem C4_permission_requested_fire_and_forget:
  "RequestPermission \<in> set (snd (lifetime es))
   \<and> (reachable s \<longrightarrow>
        (\<exists>es'. fst (lifetime es') = s \<and> RequestPermission \<in> set (snd (lifetime es'))))
   \<and> fst (Index (s\<lparr> permissionStatus := None \<rparr>)) = [RequestPermission]
   \<and> fst (Index (s\<lparr> permissionStatus := Some r \<rparr>)) = []
   \<and> snd (Index (s\<lparr> permissionStatus := p \<rparr>)) = snd (Index s)
   \<and> enabled e (s\<lparr> permissionStatus := p \<rparr>) = enabled e s
   \<and> thrown (fire e (s\<lparr> permissionStatus := p \<rparr>)) = thrown (fire e s)
   \<and> effects (fire e (s\<lparr> permissionStatus := p \<rparr>)) = effects (fire e s)
   \<and> (after (fire e (s\<lparr> permissionStatus := p \<rparr>)))\<lparr> permissionStatus := q \<rparr>
       = (after (fire e s))\<lparr> permissionStatus := q \<rparr>"
proof -
  have life: "reachable s \<longrightarrow>
        (\<exists>es'. fst (lifetime es') = s \<and> RequestPermission \<in> set (snd (lifetime es')))"
    using reachable_lifetime [of s] lifetime_requests by blast
  have render: "fst (Index (s\<lparr> permissionStatus := None \<rparr>)) = [RequestPermission]"
    "fst (Index (s\<lparr> permissionStatus := Some r \<rparr>)) = []"
    by (simp_all add: Index_def)
  from life render lifetime_requests [of es] show ?thesis
    by (simp add: Index_view_ignores_permission enabled_ignores_permission
                  fire_ignores_permission)
qed

text \<open>
  An instance: the hook reports a denial, the user enters the editing mode and picks a
  sticker; the request was made, and the sticker is stored as it is without the denial.
\<close>

theorem C4_permission_requested_fire_and_forget_witness:
  "reachable initial
   \<and> (\<exists>es'. fst (lifetime es') = initial \<and> RequestPermission \<in> set (snd (lifetime es')))
   \<and> RequestPermission \<in> set (snd (lifetime
        [PermissionsHook (Some \<lparr> status = DENIED, granted = False, canAskAgain = False \<rparr>),
         PressUseThisPhoto, SelectEmoji (Required ''emoji1.png'')]))
   \<and> fst (Index (initial
        \<lparr> permissionStatus := Some \<lparr> status = DENIED, granted = False, canAskAgain = False \<rparr> \<rparr>)) = []
   \<and> pickedEmoji (after (fire (SelectEmoji (Required ''emoji1.png'')) (initial
        \<lparr> permissionStatus := Some \<lparr> status = DENIED, granted = False, canAskAgain = False \<rparr> \<rparr>)))
       = Required ''emoji1.png''"
proof -
  let ?denied = "\<lparr> status = DENIED, granted = False, canAskAgain = False \<rparr>"
  let ?es = "[PermissionsHook (Some ?denied), PressUseThisPhoto, SelectEmoji (Required ''emoji1.png'')]"
  note inst = C4_permission_requested_fire_and_forget
      [of ?es initial ?denied "Some ?denied" "SelectEmoji (Required ''emoji1.png'')" None]
  have "pickedEmoji (after (fire (SelectEmoji (Required ''emoji1.png''))
          (initial\<lparr> permissionStatus := Some ?denied \<rparr>))) = Required ''emoji1.png''"
    by (simp add: returned_def setPickedEmoji_def)
  with inst reachable.mount show ?thesis
    by simp
qed

section \<open>The background of the canvas\<close>

text \<open>
  The cell \<open>image\<close> only ever holds \<open>undefined\<close>, the bundled default, or a string: no
  handler stores anything else in it.
\<close>

lemma fire_image_st:
  "image_st (after (fire e s)) = image_st s
   \<or> image_st (after (fire e s)) = ImageProvider
   \<or> (\<exists>u. image_st (after (fire e s)) = Str u)"
  by (cases e;
      simp add: returned_def setters onReset_def onAddSticker_def onEmojiModalClose_def
                pickImageAsync_def onSaveImageAsync_after Let_def
           split: settled.splits option.splits list.splits)

lemma reachable_image_st:
  "reachable s \<Longrightarrow>
     image_st s = JsUndefined \<or> image_st s = ImageProvider \<or> (\<exists>u. image_st s = Str u)"
proof (induction rule: reachable.induct)
  case mount
  show ?case by (simp add: initial_def)
next
  case (event s e)
  from fire_image_st [of e s] event.IH show ?case by auto
qed

lemma path_cases:
  assumes "image_st s = JsUndefined \<or> image_st s = ImageProvider \<or> (\<exists>u. image_st s = Str u)"
  shows "path (snd (Index s)) = ImageProvider
         \<or> (\<exists>u. u \<noteq> [] \<and> image_st s = Str u \<and> path (snd (Index s)) = Str u)"
  using assms by (auto simp: Index_def)

text \<open>
  Claim C10. In every reachable state the image viewer is given a defined source: the
  \<open>path\<close> of the render is never \<open>undefined\<close>; it is the bundled default background or
  a non-empty string held by the cell \<open>image\<close>; and when the cell \<open>image\<close> is
  \<open>undefined\<close>, it is the bundled default background.
\<close>

theorem C10_background_always_defined:
  assumes "reachable s"
  shows "path (snd (Index s)) \<noteq> JsUndefined
         \<and> (path (snd (Index s)) = ImageProvider
              \<or> (\<exists>u. u \<noteq> [] \<and> image_st s = Str u \<and> path (snd (Index s)) = Str u))
         \<and> (image_st s = JsUndefined \<longrightarrow> path (snd (Index s)) = ImageProvider)"
proof -
  from assms have cells:
    "image_st s = JsUndefined \<or> image_st s = ImageProvider \<or> (\<exists>u. image_st s = Str u)"
    by (rule reachable_image_st)
  then have shown: "path (snd (Index s)) = ImageProvider
         \<or> (\<exists>u. u \<noteq> [] \<and> image_st s = Str u \<and> path (snd (Index s)) = Str u)"
    by (rule path_cases)
  then have "path (snd (Index s)) \<noteq> JsUndefined"
    by (auto simp: ImageProvider_def)
  moreover have "image_st s = JsUndefined \<longrightarrow> path (snd (Index s)) = ImageProvider"
    by (simp add: Index_def)
  ultimately show ?thesis
    using shown by blast
qed

text \<open>
  Two instances: the screen as mounted, and the screen after a photo was picked from the
  initial state.
\<close>

theorem C10_background_always_defined_witness:
  "reachable initial
   \<and> path (snd (Index initial)) = ImageProvider
   \<and> reachable (after (fire (PressChoosePhoto (Resolved
        \<lparr> canceled = False, assets = Some [\<lparr> uri = ''file:///photos/cat.jpg'' \<rparr>] \<rparr>)) initial))
   \<and> path (snd (Index (after (fire (PressChoosePhoto (Resolved
        \<lparr> canceled = False, assets = Some [\<lparr> uri = ''file:///photos/cat.jpg'' \<rparr>] \<rparr>)) initial))))
       \<noteq> JsUndefined"
proof -
  let ?e = "PressChoosePhoto (Resolved
        \<lparr> canceled = False, assets = Some [\<lparr> uri = ''file:///photos/cat.jpg'' \<rparr>] \<rparr>)"
  have en: "enabled ?e initial"
    by (simp add: enabled_def Index_def initial_def)
  have r: "reachable (after (fire ?e initial))"
    by (rule reachable.event [OF reachable.mount en])
  from C10_background_always_defined [OF reachable.mount]
       C10_background_always_defined [OF r] r reachable.mount
  show ?thesis
    by (simp add: initial_def)
qed

end
